theory Spec2Isabelle
  imports Complex_Main
begin

section \<open>Numbers\<close>

text \<open>
  A JavaScript \<open>number\<close> is modelled as a \<^typ>\<open>real\<close>: \<open>Math.sin\<close>, \<open>Math.cos\<close> and
  \<open>Math.PI\<close> are \<^term>\<open>sin\<close>, \<^term>\<open>cos\<close> and \<^term>\<open>pi\<close>, and a decimal literal
  such as \<open>0.08\<close> is the rational it denotes. The rounding of IEEE doubles and the
  values \<open>NaN\<close> and \<open>Infinity\<close> are not modelled.
\<close>

text \<open>\<open>Math.hypot(a, b)\<close>: the square root of the sum of the squares.\<close>

definition hypot :: "real \<Rightarrow> real \<Rightarrow> real" where
  "hypot a b = sqrt (a * a + b * b)"

text \<open>\<open>Math.max\<close>, \<open>Math.min\<close> and \<open>Math.abs\<close> are \<^term>\<open>max\<close>, \<^term>\<open>min\<close> and \<^term>\<open>abs\<close>.\<close>


section \<open>Gesture state (types.ts)\<close>

text \<open>\<open>handPosition: { x: number; y: number }\<close>\<close>

record Position =
  pos_x :: real
  pos_y :: real

text \<open>\<open>interface HandGestureState\<close>\<close>

record HandGestureState =
  isPalmOpen :: bool
  isFist :: bool
  isPinching :: bool
  pinchDistance :: real
  handPosition :: Position


section \<open>Gesture classification (components/HandController.tsx)\<close>

text \<open>
  A landmark of the detector: only its \<open>x\<close> and \<open>y\<close> are read by the classifier
  (the detector's \<open>z\<close> is never used).
\<close>

record Landmark =
  lm_x :: real
  lm_y :: real

text \<open>
  The branch of \<open>predictWebcam\<close> taken when a hand is present (lines 174 to 203).
  \<open>landmarks[i]\<close> beyond the end of the array is \<open>undefined\<close>, and reading \<open>.x\<close> of it
  throws a \<open>TypeError\<close> before \<open>newState\<close> is built: the result is \<open>None\<close> then.
\<close>

definition classifyLandmarks :: "Landmark list \<Rightarrow> HandGestureState option" where
  "classifyLandmarks landmarks =
     (if length landmarks \<le> 20 then None
      else
        (let thumbTip = landmarks ! 4;
             indexTip = landmarks ! 8;
             pinkyTip = landmarks ! 20;
             wrist = landmarks ! 0;
             pinchDist = hypot (lm_x thumbTip - lm_x indexTip) (lm_y thumbTip - lm_y indexTip);
             isPinching' = (pinchDist < 0.08);
             dIndex = hypot (lm_x indexTip - lm_x wrist) (lm_y indexTip - lm_y wrist);
             dPinky = hypot (lm_x pinkyTip - lm_x wrist) (lm_y pinkyTip - lm_y wrist);
             isFist' = (dIndex < 0.15 \<and> dPinky < 0.15);
             isPalmOpen' = (\<not> isFist' \<and> \<not> isPinching' \<and> dIndex > 0.2);
             cursorX = 1 - lm_x indexTip;
             cursorY = lm_y indexTip
         in Some \<lparr> isPalmOpen = isPalmOpen',
                    isFist = isFist',
                    isPinching = isPinching',
                    pinchDistance = pinchDist,
                    handPosition = \<lparr> pos_x = cursorX, pos_y = cursorY \<rparr> \<rparr>))"

text \<open>The state built when no hand is detected (lines 205 to 211).\<close>

definition neutralState :: HandGestureState where
  "neutralState =
     \<lparr> isPalmOpen = False, isFist = False, isPinching = False, pinchDistance = 0,
       handPosition = \<lparr> pos_x = 0.5, pos_y = 0.5 \<rparr> \<rparr>"

text \<open>
  What \<open>landmarker.detectForVideo\<close> does on a frame: it throws, or it returns a result
  whose \<open>landmarks\<close> field is absent or a list of hands.
\<close>

datatype DetectOutcome = Threw | Returned "Landmark list list option"

text \<open>
  The candidate \<open>newState\<close> of a frame (the body of the \<open>try\<close> up to line 212);
  \<open>None\<close> when an exception is thrown, which the \<open>catch\<close> logs.
\<close>

fun candidateState :: "DetectOutcome \<Rightarrow> HandGestureState option" where
  "candidateState Threw = None"
| "candidateState (Returned None) = Some neutralState"
| "candidateState (Returned (Some [])) = Some neutralState"
| "candidateState (Returned (Some (landmarks # rest))) = classifyLandmarks landmarks"

text \<open>\<open>hasChanged\<close> (lines 216 to 220).\<close>

definition hasChanged :: "HandGestureState \<Rightarrow> HandGestureState \<Rightarrow> bool" where
  "hasChanged prev newState =
     (isPalmOpen prev \<noteq> isPalmOpen newState \<or>
      isFist prev \<noteq> isFist newState \<or>
      isPinching prev \<noteq> isPinching newState \<or>
      \<bar>pinchDistance prev - pinchDistance newState\<bar> > 0.05)"

text \<open>
  What \<open>predictWebcam\<close> reads on one animation frame: the component's \<open>cameraReady\<close>
  flag, whether the video element and the landmarker are there, the video's state, and
  what the detector does if it is called.
\<close>

record Frame =
  cameraReady :: bool
  videoMounted :: bool
  landmarkerLoaded :: bool
  paused :: bool
  ended :: bool
  videoWidth :: nat
  videoHeight :: nat
  currentTime :: real
  detectForVideo :: DetectOutcome

text \<open>The refs the loop keeps between frames.\<close>

record ControllerRefs =
  lastVideoTime :: real
  previousState :: HandGestureState

text \<open>The initial values of the refs (lines 15 and 22 to 28).\<close>

definition initialRefs :: ControllerRefs where
  "initialRefs = \<lparr> lastVideoTime = -1, previousState = neutralState \<rparr>"

text \<open>
  One run of \<open>predictWebcam\<close> (lines 157 to 233): the new refs, and the state passed to
  \<open>onGestureUpdate\<close> when it is called.
\<close>

definition predictWebcam :: "Frame \<Rightarrow> ControllerRefs \<Rightarrow> ControllerRefs \<times> HandGestureState option" where
  "predictWebcam fr refs =
     (if cameraReady fr \<and> videoMounted fr \<and> landmarkerLoaded fr \<and> \<not> paused fr \<and> \<not> ended fr then
        if videoWidth fr > 0 \<and> videoHeight fr > 0 then
          if currentTime fr \<noteq> lastVideoTime refs then
            (let refs1 = refs\<lparr> lastVideoTime := currentTime fr \<rparr> in
               case candidateState (detectForVideo fr) of
                 None \<Rightarrow> (refs1, None)
               | Some newState \<Rightarrow>
                   if hasChanged (previousState refs1) newState
                   then (refs1\<lparr> previousState := newState \<rparr>, Some newState)
                   else (refs1, None))
          else (refs, None)
        else (refs, None)
      else (refs, None))"

section \<open>Control binding (App.tsx, \<open>AppContent\<close>)\<close>

text \<open>\<open>enum ViewMode\<close> (types.ts) and the options of the \<open>activeLayer\<close> control.\<close>

datatype ViewMode = GLOBAL | CHINA | HOBQ | PV_FOCUS

datatype ActiveLayer = Mean | Slope

text \<open>The values of the controls declared with \<open>useControls\<close> (lines 53 to 84).\<close>

record Controls =
  viewMode :: ViewMode
  activeLayer :: ActiveLayer
  autoRotate :: bool
  demStrength :: real
  pvScale :: real
  particlesEnabled :: bool
  highlightColor :: string
  pvColor :: string

text \<open>Their declared initial values.\<close>

definition initialControls :: Controls where
  "initialControls =
     \<lparr> viewMode = CHINA, activeLayer = Mean, autoRotate = True, demStrength = 1.5,
       pvScale = 0.1, particlesEnabled = True, highlightColor = ''#00ffcc'',
       pvColor = ''#0066cc'' \<rparr>"

text \<open>The initial \<open>gestureState\<close> of \<open>AppContent\<close> (lines 44 to 50).\<close>

definition initialGestureState :: HandGestureState where
  "initialGestureState =
     \<lparr> isPalmOpen = False, isFist = False, isPinching = False, pinchDistance = 0,
       handPosition = \<lparr> pos_x = 0.5, pos_y = 0.5 \<rparr> \<rparr>"

text \<open>
  The two partial objects the gesture effect passes to \<open>setControls\<close>:
  \<open>{ autoRotate: b }\<close> and \<open>{ pvScale: v }\<close>. \<open>setControls\<close> writes the named field and
  leaves the others.
\<close>

datatype ControlsPatch = PatchAutoRotate bool | PatchPvScale real

fun setControls :: "ControlsPatch \<Rightarrow> Controls \<Rightarrow> Controls" where
  "setControls (PatchAutoRotate b) c = c\<lparr> autoRotate := b \<rparr>"
| "setControls (PatchPvScale v) c = c\<lparr> pvScale := v \<rparr>"

text \<open>
  The gesture effect (lines 91 to 112): the calls of \<open>setControls\<close> it makes, in order,
  for a gesture state and the current values of the controls.
\<close>

definition gestureEffect :: "HandGestureState \<Rightarrow> Controls \<Rightarrow> ControlsPatch list" where
  "gestureEffect gestureState currentControls =
     (if isPalmOpen gestureState then
        (if \<not> autoRotate currentControls then [PatchAutoRotate True] else [])
      else if isFist gestureState then
        (if autoRotate currentControls then [PatchAutoRotate False] else [])
      else [])
     @
     (if isPinching gestureState then
        (let newScale = min 1 (max 0 (pvScale currentControls + 0.02)) in
           if \<bar>newScale - pvScale currentControls\<bar> > 0.01 then [PatchPvScale newScale] else [])
      else [])"

text \<open>The controls after the effect has run for one gesture state.\<close>

definition applyGesture :: "HandGestureState \<Rightarrow> Controls \<Rightarrow> Controls" where
  "applyGesture gestureState currentControls =
     fold setControls (gestureEffect gestureState currentControls) currentControls"

text \<open>The effect runs once for each gesture state received, on the controls as they are then.\<close>

definition applyGestures :: "HandGestureState list \<Rightarrow> Controls \<Rightarrow> Controls" where
  "applyGestures gestureStates c = fold applyGesture gestureStates c"


section \<open>Placement on the globe (components/Earth.tsx, components/SolarPanels.tsx, constants.ts)\<close>

text \<open>A \<open>THREE.Vector3\<close> and a \<open>THREE.Quaternion\<close>, by their components.\<close>

record Vector3 =
  v_x :: real
  v_y :: real
  v_z :: real

record Quaternion =
  q_x :: real
  q_y :: real
  q_z :: real
  q_w :: real

text \<open>\<open>interface LatLon\<close>, and the fields of \<open>PVStationData\<close> the placement reads.\<close>

record LatLon =
  lat :: real
  lon :: real

datatype StationType = Small | Medium | Large

record PVStationData =
  station_id :: string
  station_lat :: real
  station_lon :: real
  area :: real
  station_type :: StationType

definition EARTH_RADIUS :: real where
  "EARTH_RADIUS = 50"

definition HOBQ_CENTER :: LatLon where
  "HOBQ_CENTER = \<lparr> lat = 40.2, lon = 108.5 \<rparr>"

text \<open>
  The conversion of latitude and longitude to a position, written out twice in the
  source with the same text: for a station (SolarPanels, lines 218 to 225 of the
  listing) and for the overlay (\<open>HobqDataOverlay\<close>, lines 113 to 120).
\<close>

definition project :: "real \<Rightarrow> real \<Rightarrow> real \<Rightarrow> Vector3" where
  "project latitude longitude r =
     (let phi = (90 - latitude) * (pi / 180);
          theta = (longitude + 180) * (pi / 180)
      in \<lparr> v_x = - (r * sin phi * cos theta),
           v_y = r * cos phi,
           v_z = r * sin phi * sin theta \<rparr>)"

definition stationPosition :: "PVStationData \<Rightarrow> Vector3" where
  "stationPosition station =
     project (station_lat station) (station_lon station) (EARTH_RADIUS + 0.05)"

definition overlayPosition :: Vector3 where
  "overlayPosition = project (lat HOBQ_CENTER) (lon HOBQ_CENTER) (EARTH_RADIUS + 0.3)"

text \<open>The canonical up-axis, \<open>new Vector3(0, 1, 0)\<close>.\<close>

definition up :: Vector3 where
  "up = \<lparr> v_x = 0, v_y = 1, v_z = 0 \<rparr>"

text \<open>
  Modelled from the spec: \<open>Vector3.length\<close> is code of the three.js library, not of
  this repository: the Euclidean length of the vector.
\<close>

definition length_v3 :: "Vector3 \<Rightarrow> real" where
  "length_v3 v = sqrt (v_x v * v_x v + v_y v * v_y v + v_z v * v_z v)"

text \<open>
  Modelled from the spec: \<open>Vector3.normalize\<close> is code of the three.js library, not of
  this repository. The spec calls its result the normalized position vector: the vector
  divided by its length (the zero vector, which has no direction, is left as it is).
\<close>

definition normalize_v3 :: "Vector3 \<Rightarrow> Vector3" where
  "normalize_v3 v =
     (let l = (if length_v3 v = 0 then 1 else length_v3 v)
      in \<lparr> v_x = v_x v / l, v_y = v_y v / l, v_z = v_z v / l \<rparr>)"

text \<open>
  Modelled from the spec: \<open>Quaternion.normalize\<close> is code of the three.js library, not of
  this repository: the quaternion scaled to unit length (the zero quaternion becomes the
  identity rotation).
\<close>

definition normalize_q :: "Quaternion \<Rightarrow> Quaternion" where
  "normalize_q q =
     (let l = sqrt (q_x q * q_x q + q_y q * q_y q + q_z q * q_z q + q_w q * q_w q)
      in if l = 0 then \<lparr> q_x = 0, q_y = 0, q_z = 0, q_w = 1 \<rparr>
         else \<lparr> q_x = q_x q / l, q_y = q_y q / l, q_z = q_z q / l, q_w = q_w q / l \<rparr>)"

text \<open>
  Modelled from the spec: \<open>Quaternion.setFromUnitVectors\<close> is code of the three.js
  library, not of this repository. The spec describes its result by its effect alone: the
  rotation that maps the first unit vector onto the second. It is realised here as the
  shortest such rotation, in the library's construction: the quaternion with vector part
  the cross product of the two and scalar part one plus their dot product, normalized;
  for opposite vectors, a half turn about an axis perpendicular to the first. The
  library takes the second case when the scalar part is below the spacing of doubles
  (\<open>Number.EPSILON\<close>); over the reals, where nothing is rounded, that is a scalar part of
  zero.
\<close>

definition setFromUnitVectors :: "Vector3 \<Rightarrow> Vector3 \<Rightarrow> Quaternion" where
  "setFromUnitVectors vFrom vTo =
     (let r = v_x vFrom * v_x vTo + v_y vFrom * v_y vTo + v_z vFrom * v_z vTo + 1
      in if r \<le> 0 then
           (if \<bar>v_x vFrom\<bar> > \<bar>v_z vFrom\<bar>
            then normalize_q \<lparr> q_x = - v_y vFrom, q_y = v_x vFrom, q_z = 0, q_w = 0 \<rparr>
            else normalize_q \<lparr> q_x = 0, q_y = - v_z vFrom, q_z = v_y vFrom, q_w = 0 \<rparr>)
         else
           normalize_q
             \<lparr> q_x = v_y vFrom * v_z vTo - v_z vFrom * v_y vTo,
               q_y = v_z vFrom * v_x vTo - v_x vFrom * v_z vTo,
               q_z = v_x vFrom * v_y vTo - v_y vFrom * v_x vTo,
               q_w = r \<rparr>)"

text \<open>
  Modelled from the spec: what it is for a rotation to map a vector. The source hands
  the quaternion to the renderer and never applies it itself; a unit quaternion \<open>q\<close>
  maps \<open>v\<close> to \<open>q v q\<^sup>-\<^sup>1\<close>, written out by components (\<open>v + w t + u \<times> t\<close> with
  \<open>t = 2 (u \<times> v)\<close>, for \<open>q\<close> with vector part \<open>u\<close> and scalar part \<open>w\<close>).
\<close>

definition applyQuaternion :: "Quaternion \<Rightarrow> Vector3 \<Rightarrow> Vector3" where
  "applyQuaternion q v =
     (let tx = 2 * (q_y q * v_z v - q_z q * v_y v);
          ty = 2 * (q_z q * v_x v - q_x q * v_z v);
          tz = 2 * (q_x q * v_y v - q_y q * v_x v)
      in \<lparr> v_x = v_x v + q_w q * tx + q_y q * tz - q_z q * ty,
           v_y = v_y v + q_w q * ty + q_z q * tx - q_x q * tz,
           v_z = v_z v + q_w q * tz + q_x q * ty - q_y q * tx \<rparr>)"

text \<open>
  The orientation of an object placed at \<open>position\<close>, as the source computes it for a
  station (lines 229 to 233 of the listing) and for the overlay (lines 124 to 128):
  \<open>setFromUnitVectors(up, position.clone().normalize())\<close>.
\<close>

definition surfaceOrientation :: "Vector3 \<Rightarrow> Quaternion" where
  "surfaceOrientation position = setFromUnitVectors up (normalize_v3 position)"

definition stationQuaternion :: "PVStationData \<Rightarrow> Quaternion" where
  "stationQuaternion station = surfaceOrientation (stationPosition station)"

definition overlayQuaternion :: Quaternion where
  "overlayQuaternion = surfaceOrientation overlayPosition"

text \<open>
  Modelled from the spec: \<open>Vector3.lerp\<close> is code of the three.js library, not of this
  repository. The spec gives the update as \<open>current += (target - current) \<cdot> \<alpha>\<close>, here
  on each component.
\<close>

definition lerp :: "Vector3 \<Rightarrow> Vector3 \<Rightarrow> real \<Rightarrow> Vector3" where
  "lerp current target alpha =
     \<lparr> v_x = v_x current + (v_x target - v_x current) * alpha,
       v_y = v_y current + (v_y target - v_y current) * alpha,
       v_z = v_z current + (v_z target - v_z current) * alpha \<rparr>"

text \<open>
  The frame callback of \<open>SolarPanels\<close> (lines 245 to 252 of the listing): the scale of
  the instanced mesh after the frame; \<open>None\<close> while the mesh is not mounted.
\<close>

definition useFrame :: "real \<Rightarrow> Vector3 option \<Rightarrow> Vector3 option" where
  "useFrame scaleMultiplier meshScale =
     (case meshScale of
        None \<Rightarrow> None
      | Some currentScale \<Rightarrow>
          (let targetScale = 1 + scaleMultiplier * 2
           in Some (lerp currentScale
                      \<lparr> v_x = targetScale, v_y = targetScale, v_z = targetScale \<rparr> 0.1)))"


section \<open>The words of the specification\<close>

text \<open>The Euclidean distance of two landmarks in the normalized image plane.\<close>

definition euclid :: "Landmark \<Rightarrow> Landmark \<Rightarrow> real" where
  "euclid p q = sqrt ((lm_x p - lm_x q)\<^sup>2 + (lm_y p - lm_y q)\<^sup>2)"

text \<open>\<open>clamp(v, lo, hi)\<close>.\<close>

definition clamp :: "real \<Rightarrow> real \<Rightarrow> real \<Rightarrow> real" where
  "clamp v lo hi = (if v < lo then lo else if hi < v then hi else v)"

text \<open>
  The three rules of the control binding, as the specification words them:
  ``if palmOpen and autoRotate is currently false, set autoRotate to true; else if fist
  and autoRotate is currently true, set autoRotate to false; if pinching, compute
  newScale = clamp(pvScale + 0.02, 0, 1) and apply it only if it differs from pvScale
  by more than 0.01''.
\<close>

definition specApply :: "HandGestureState \<Rightarrow> Controls \<Rightarrow> Controls" where
  "specApply gesture current =
     (let rotated =
            (if isPalmOpen gesture \<and> \<not> autoRotate current then current\<lparr> autoRotate := True \<rparr>
             else if isFist gesture \<and> autoRotate current then current\<lparr> autoRotate := False \<rparr>
             else current);
          newScale = clamp (pvScale current + 0.02) 0 1
      in if isPinching gesture \<and> \<bar>newScale - pvScale current\<bar> > 0.01
         then rotated\<lparr> pvScale := newScale \<rparr>
         else rotated)"

text \<open>Two gesture states carry the same three flags.\<close>

definition sameFlags :: "HandGestureState \<Rightarrow> HandGestureState \<Rightarrow> bool" where
  "sameFlags a b =
     (isPalmOpen a = isPalmOpen b \<and> isFist a = isFist b \<and> isPinching a = isPinching b)"

text \<open>
  A frame gets as far as the classification: the camera runs, the video has a size, and
  its time is not the time of the frame processed last.
\<close>

definition frameProcessed :: "Frame \<Rightarrow> ControllerRefs \<Rightarrow> bool" where
  "frameProcessed fr refs =
     (cameraReady fr \<and> videoMounted fr \<and> landmarkerLoaded fr \<and> \<not> paused fr \<and> \<not> ended fr \<and>
      0 < videoWidth fr \<and> 0 < videoHeight fr \<and> currentTime fr \<noteq> lastVideoTime refs)"

text \<open>Which field a call of \<open>setControls\<close> writes, and whether a run of calls writes it.\<close>

fun patchesAutoRotate :: "ControlsPatch \<Rightarrow> bool" where
  "patchesAutoRotate (PatchAutoRotate b) = True"
| "patchesAutoRotate (PatchPvScale v) = False"

fun patchesPvScale :: "ControlsPatch \<Rightarrow> bool" where
  "patchesPvScale (PatchAutoRotate b) = False"
| "patchesPvScale (PatchPvScale v) = True"

definition writesAutoRotate :: "ControlsPatch list \<Rightarrow> bool" where
  "writesAutoRotate ps = list_ex patchesAutoRotate ps"

definition writesPvScale :: "ControlsPatch list \<Rightarrow> bool" where
  "writesPvScale ps = list_ex patchesPvScale ps"


section \<open>Inputs used as examples\<close>

text \<open>
  A hand of 21 landmarks with the given wrist (index 0), thumb tip (4), index tip (8)
  and pinky tip (20); the other landmarks, which the classifier does not read, are put
  at the wrist.
\<close>

definition hand :: "Landmark \<Rightarrow> Landmark \<Rightarrow> Landmark \<Rightarrow> Landmark \<Rightarrow> Landmark list" where
  "hand wrist thumbTip indexTip pinkyTip =
     [wrist, wrist, wrist, wrist, thumbTip, wrist, wrist, wrist, indexTip, wrist, wrist,
      wrist, wrist, wrist, wrist, wrist, wrist, wrist, wrist, wrist, pinkyTip]"

text \<open>
  A stretched hand: index tip 0.4 above the wrist, pinky tip 0.2 beside it, the thumb
  tip at distance \<open>d\<close> beside the index tip.
\<close>

definition openHand :: "real \<Rightarrow> Landmark list" where
  "openHand d =
     hand \<lparr> lm_x = 0.5, lm_y = 0.9 \<rparr> \<lparr> lm_x = 0.5 + d, lm_y = 0.5 \<rparr>
          \<lparr> lm_x = 0.5, lm_y = 0.5 \<rparr> \<lparr> lm_x = 0.3, lm_y = 0.9 \<rparr>"

definition openState :: "real \<Rightarrow> HandGestureState" where
  "openState d =
     \<lparr> isPalmOpen = True, isFist = False, isPinching = False, pinchDistance = d,
       handPosition = \<lparr> pos_x = 0.5, pos_y = 0.5 \<rparr> \<rparr>"

text \<open>
  A closed hand: index and pinky tip 0.1 from the wrist, the thumb tip 0.05 beside the
  index tip.
\<close>

definition fistPinchHand :: "Landmark list" where
  "fistPinchHand =
     hand \<lparr> lm_x = 0.5, lm_y = 0.6 \<rparr> \<lparr> lm_x = 0.55, lm_y = 0.5 \<rparr>
          \<lparr> lm_x = 0.5, lm_y = 0.5 \<rparr> \<lparr> lm_x = 0.4, lm_y = 0.6 \<rparr>"

text \<open>A tightly curled hand: all three tips within 0.05 of the wrist.\<close>

definition curledHand :: "Landmark list" where
  "curledHand =
     hand \<lparr> lm_x = 0.5, lm_y = 0.6 \<rparr> \<lparr> lm_x = 0.52, lm_y = 0.55 \<rparr>
          \<lparr> lm_x = 0.5, lm_y = 0.55 \<rparr> \<lparr> lm_x = 0.5, lm_y = 0.56 \<rparr>"

text \<open>A playing video frame at time \<open>t\<close> on which the detector finds one hand.\<close>

definition videoFrame :: "real \<Rightarrow> Landmark list \<Rightarrow> Frame" where
  "videoFrame t landmarks =
     \<lparr> cameraReady = True, videoMounted = True, landmarkerLoaded = True, paused = False,
       ended = False, videoWidth = 640, videoHeight = 480, currentTime = t,
       detectForVideo = Returned (Some [landmarks]) \<rparr>"

text \<open>The refs after the stretched hand with \<open>d = 0.1\<close> was emitted at time 1.\<close>

definition refsAfterOpen :: ControllerRefs where
  "refsAfterOpen = \<lparr> lastVideoTime = 1, previousState = openState (1 / 10) \<rparr>"

text \<open>A gesture state with the given flags (palm open, fist, pinching).\<close>

definition gestureWith :: "bool \<Rightarrow> bool \<Rightarrow> bool \<Rightarrow> HandGestureState" where
  "gestureWith palm fist pinch =
     \<lparr> isPalmOpen = palm, isFist = fist, isPinching = pinch, pinchDistance = 0,
       handPosition = \<lparr> pos_x = 0.5, pos_y = 0.5 \<rparr> \<rparr>"


section \<open>Basic facts\<close>

lemma hypot_euclid: "hypot (lm_x p - lm_x q) (lm_y p - lm_y q) = euclid p q"
  by (simp add: hypot_def euclid_def power2_eq_square)

lemma hypot_zero_right: "hypot a 0 = \<bar>a\<bar>"
  by (simp add: hypot_def)

lemma hypot_zero_left: "hypot 0 b = \<bar>b\<bar>"
  by (simp add: hypot_def)

lemma euclid_same_y: "lm_y p = lm_y q \<Longrightarrow> euclid p q = \<bar>lm_x p - lm_x q\<bar>"
  by (simp add: euclid_def)

lemma euclid_same_x: "lm_x p = lm_x q \<Longrightarrow> euclid p q = \<bar>lm_y p - lm_y q\<bar>"
  by (simp add: euclid_def)

lemma clamp_min_max: "clamp v 0 1 = min 1 (max 0 v)"
  by (simp add: clamp_def min_def max_def)

lemma openHand_state:
  "2 / 25 \<le> d \<Longrightarrow> classifyLandmarks (openHand d) = Some (openState d)"
  by (simp add: classifyLandmarks_def openHand_def openState_def hand_def Let_def
        hypot_zero_right hypot_zero_left)

lemma candidate_openHand:
  "2 / 25 \<le> d \<Longrightarrow>
     candidateState (detectForVideo (videoFrame t (openHand d))) = Some (openState d)"
  by (simp add: videoFrame_def openHand_state)


section \<open>The projection\<close>

text \<open>
  Claim C1. For every latitude, longitude and radius \<open>r\<close>, the projection is the
  position \<open>(-(r sin \<phi> cos \<theta>), r cos \<phi>, r sin \<phi> sin \<theta>)\<close> with
  \<open>\<phi> = (90 - lat) \<pi> / 180\<close> and \<open>\<theta> = (lon + 180) \<pi> / 180\<close>; at latitude 0 and
  longitude 0 its y-component is zero, and the signs of the formula put it at \<open>(r, 0, 0)\<close>.
\<close>

theorem project_formula:
  "project latitude longitude r =
     \<lparr> v_x = - (r * sin ((90 - latitude) * pi / 180) * cos ((longitude + 180) * pi / 180)),
       v_y = r * cos ((90 - latitude) * pi / 180),
       v_z = r * sin ((90 - latitude) * pi / 180) * sin ((longitude + 180) * pi / 180) \<rparr>
   \<and> v_y (project 0 0 r) = 0
   \<and> project 0 0 r = \<lparr> v_x = r, v_y = 0, v_z = 0 \<rparr>"
  by (simp add: project_def Let_def)


section \<open>The classifier\<close>

text \<open>
  Claim C2. For every landmark set of a detected hand (21 landmarks, or more), the
  classifier produces a state with \<open>isPinching = (pinchDist < 0.08)\<close>,
  \<open>isFist = (dIndex < 0.15 \<and> dPinky < 0.15)\<close> and
  \<open>isPalmOpen = (\<not> isFist \<and> \<not> isPinching \<and> dIndex > 0.2)\<close>, where \<open>pinchDist\<close> is the
  Euclidean distance from thumb tip (landmark 4) to index tip (8), \<open>dIndex\<close> from index
  tip to wrist (0) and \<open>dPinky\<close> from pinky tip (20) to wrist; it is the candidate state
  of a frame on which that hand is the first detected.
\<close>

theorem classifier_thresholds:
  assumes "21 \<le> length landmarks"
  shows "\<exists>g. classifyLandmarks landmarks = Some g \<and>
           candidateState (Returned (Some (landmarks # others))) = Some g \<and>
           isPinching g = (euclid (landmarks ! 4) (landmarks ! 8) < 0.08) \<and>
           isFist g = (euclid (landmarks ! 8) (landmarks ! 0) < 0.15 \<and>
                       euclid (landmarks ! 20) (landmarks ! 0) < 0.15) \<and>
           isPalmOpen g = (\<not> isFist g \<and> \<not> isPinching g \<and>
                           euclid (landmarks ! 8) (landmarks ! 0) > 0.2)"
  using assms by (simp add: classifyLandmarks_def Let_def hypot_euclid)

text \<open>The theorem at the stretched hand with the thumb 0.3 from the index tip.\<close>

theorem classifier_thresholds_witness:
  "21 \<le> length (openHand (3 / 10)) \<and>
   (\<exists>g. classifyLandmarks (openHand (3 / 10)) = Some g \<and>
        candidateState (Returned (Some [openHand (3 / 10)])) = Some g \<and>
        \<not> isPinching g \<and> \<not> isFist g \<and> isPalmOpen g)"
proof -
  have len: "21 \<le> length (openHand (3 / 10))"
    by (simp add: openHand_def hand_def)
  from classifier_thresholds [OF len, of "[]"] len show ?thesis
    by (auto simp add: openHand_def hand_def euclid_same_x euclid_same_y)
qed

text \<open>
  Claim C5 says that at most one of the three flags is true. The closed palm excludes
  the other two, but fist and pinch are tested independently of each other: on a tightly
  curled hand both are true.
\<close>

theorem curled_hand_fist_and_pinch:
  "classifyLandmarks curledHand =
     Some \<lparr> isPalmOpen = False, isFist = True, isPinching = True, pinchDistance = 1 / 50,
            handPosition = \<lparr> pos_x = 1 / 2, pos_y = 11 / 20 \<rparr> \<rparr>"
  by (simp add: classifyLandmarks_def curledHand_def hand_def Let_def
        hypot_zero_right hypot_zero_left)

text \<open>
  Claim C5, amended. For every classified landmark set, \<open>isPalmOpen\<close> is never true
  together with \<open>isFist\<close> or with \<open>isPinching\<close>; \<open>isFist\<close> and \<open>isPinching\<close> are both
  true exactly when \<open>pinchDist < 0.08\<close>, \<open>dIndex < 0.15\<close> and \<open>dPinky < 0.15\<close>.
\<close>

theorem palm_excludes_fist_and_pinch:
  assumes "21 \<le> length landmarks"
  shows "\<exists>g. classifyLandmarks landmarks = Some g \<and>
           \<not> (isPalmOpen g \<and> isFist g) \<and>
           \<not> (isPalmOpen g \<and> isPinching g) \<and>
           ((isFist g \<and> isPinching g) =
              (euclid (landmarks ! 4) (landmarks ! 8) < 0.08 \<and>
               euclid (landmarks ! 8) (landmarks ! 0) < 0.15 \<and>
               euclid (landmarks ! 20) (landmarks ! 0) < 0.15))"
  using assms by (auto simp add: classifyLandmarks_def Let_def hypot_euclid)

text \<open>The theorem at the closed hand, where fist and pinch hold together.\<close>

theorem palm_excludes_fist_and_pinch_witness:
  "21 \<le> length fistPinchHand \<and>
   (\<exists>g. classifyLandmarks fistPinchHand = Some g \<and>
        \<not> isPalmOpen g \<and> isFist g \<and> isPinching g)"
proof -
  have len: "21 \<le> length fistPinchHand"
    by (simp add: fistPinchHand_def hand_def)
  from palm_excludes_fist_and_pinch [OF len] len show ?thesis
    by (auto simp add: fistPinchHand_def hand_def euclid_same_x euclid_same_y)
qed

text \<open>
  Claim C9 says that a pinch distance of 0.05 gives \<open>isPinching = true\<close>,
  \<open>isFist = false\<close> and \<open>isPalmOpen = false\<close>. On the closed hand the pinch distance is
  0.05 and \<open>isFist\<close> is true.
\<close>

theorem closed_hand_pinch_is_fist:
  "classifyLandmarks fistPinchHand =
     Some \<lparr> isPalmOpen = False, isFist = True, isPinching = True, pinchDistance = 1 / 20,
            handPosition = \<lparr> pos_x = 1 / 2, pos_y = 1 / 2 \<rparr> \<rparr>"
  by (simp add: classifyLandmarks_def fistPinchHand_def hand_def Let_def
        hypot_zero_right hypot_zero_left)

text \<open>
  Claim C9, amended. For every landmark set of a detected hand with \<open>pinchDist = 0.05\<close>,
  the classifier outputs \<open>isPinching = true\<close> and \<open>isPalmOpen = false\<close>, with that pinch
  distance; \<open>isFist\<close> is \<open>dIndex < 0.15 \<and> dPinky < 0.15\<close>, so it is false exactly when
  the index tip or the pinky tip is at least 0.15 from the wrist.
\<close>

theorem pinch_at_five_hundredths:
  assumes "21 \<le> length landmarks"
    and "euclid (landmarks ! 4) (landmarks ! 8) = 0.05"
  shows "\<exists>g. classifyLandmarks landmarks = Some g \<and>
           isPinching g \<and> \<not> isPalmOpen g \<and> pinchDistance g = 0.05 \<and>
           isFist g = (euclid (landmarks ! 8) (landmarks ! 0) < 0.15 \<and>
                       euclid (landmarks ! 20) (landmarks ! 0) < 0.15)"
  using assms by (simp add: classifyLandmarks_def Let_def hypot_euclid)

text \<open>
  The theorem at the stretched hand with the thumb 0.05 from the index tip: a pinch and
  nothing else.
\<close>

theorem pinch_at_five_hundredths_witness:
  "21 \<le> length (openHand (1 / 20)) \<and>
   euclid (openHand (1 / 20) ! 4) (openHand (1 / 20) ! 8) = 1 / 20 \<and>
   (\<exists>g. classifyLandmarks (openHand (1 / 20)) = Some g \<and>
        isPinching g \<and> \<not> isPalmOpen g \<and> \<not> isFist g)"
proof -
  have len: "21 \<le> length (openHand (1 / 20))"
    by (simp add: openHand_def hand_def)
  have d: "euclid (openHand (1 / 20) ! 4) (openHand (1 / 20) ! 8) = 0.05"
    by (simp add: openHand_def hand_def euclid_same_y)
  from pinch_at_five_hundredths [OF len d] len d show ?thesis
    by (auto simp add: openHand_def hand_def euclid_same_x euclid_same_y)
qed


section \<open>The throttle\<close>

text \<open>
  Claim C3. When a frame is processed and a candidate state is computed for it, the
  candidate is emitted if and only if one of the three flags differs from the state
  emitted last (the one kept in \<open>previousState\<close>) or the pinch distances differ by more
  than 0.05; the emitted state then becomes the previous one. In particular a candidate
  with the same flags and a pinch distance 0.03 away is not emitted, and one 0.06 away
  is.
\<close>

theorem throttle_emission:
  assumes "frameProcessed fr refs"
    and "candidateState (detectForVideo fr) = Some newState"
  shows "predictWebcam fr refs =
           (if \<not> sameFlags newState (previousState refs) \<or>
               \<bar>pinchDistance newState - pinchDistance (previousState refs)\<bar> > 0.05
            then (refs\<lparr> lastVideoTime := currentTime fr, previousState := newState \<rparr>,
                  Some newState)
            else (refs\<lparr> lastVideoTime := currentTime fr \<rparr>, None))
         \<and> (sameFlags newState (previousState refs) \<and>
              \<bar>pinchDistance newState - pinchDistance (previousState refs)\<bar> = 0.03
              \<longrightarrow> snd (predictWebcam fr refs) = None)
         \<and> (sameFlags newState (previousState refs) \<and>
              \<bar>pinchDistance newState - pinchDistance (previousState refs)\<bar> = 0.06
              \<longrightarrow> snd (predictWebcam fr refs) = Some newState)"
  using assms
  by (auto simp add: predictWebcam_def frameProcessed_def hasChanged_def sameFlags_def Let_def
        abs_minus_commute)

text \<open>
  Three frames: the stretched hand with pinch distance 0.10 is emitted after the
  neutral state; the next frame, with pinch distance 0.13, is not emitted; with 0.16
  instead, it is.
\<close>

theorem throttle_emission_witness:
  "predictWebcam (videoFrame 1 (openHand (1 / 10))) initialRefs
     = (refsAfterOpen, Some (openState (1 / 10))) \<and>
   snd (predictWebcam (videoFrame 2 (openHand (13 / 100))) refsAfterOpen) = None \<and>
   snd (predictWebcam (videoFrame 2 (openHand (4 / 25))) refsAfterOpen)
     = Some (openState (4 / 25))"
proof -
  have p1: "frameProcessed (videoFrame 1 (openHand (1 / 10))) initialRefs"
    by (simp add: frameProcessed_def videoFrame_def initialRefs_def)
  have p2: "frameProcessed (videoFrame 2 h) refsAfterOpen" for h
    by (simp add: frameProcessed_def videoFrame_def refsAfterOpen_def)
  have e1: "predictWebcam (videoFrame 1 (openHand (1 / 10))) initialRefs
      = (refsAfterOpen, Some (openState (1 / 10)))"
    using throttle_emission [OF p1 candidate_openHand [of "1 / 10" 1]]
    by (simp add: sameFlags_def openState_def initialRefs_def neutralState_def videoFrame_def
          refsAfterOpen_def)
  have e2: "snd (predictWebcam (videoFrame 2 (openHand (13 / 100))) refsAfterOpen) = None"
    using throttle_emission [OF p2 candidate_openHand [of "13 / 100" 2]]
    by (simp add: refsAfterOpen_def sameFlags_def openState_def)
  have e3: "snd (predictWebcam (videoFrame 2 (openHand (4 / 25))) refsAfterOpen)
      = Some (openState (4 / 25))"
    using throttle_emission [OF p2 candidate_openHand [of "4 / 25" 2]]
    by (simp add: refsAfterOpen_def sameFlags_def openState_def)
  from e1 e2 e3 show ?thesis
    by blast
qed

text \<open>A frame that is not processed emits nothing and leaves the refs as they are.\<close>

lemma frame_skipped:
  "\<not> frameProcessed fr refs \<Longrightarrow> predictWebcam fr refs = (refs, None)"
  by (auto simp add: predictWebcam_def frameProcessed_def)

text \<open>Whatever is emitted has the palm flag only without the fist flag.\<close>

lemma classified_palm_excludes:
  "classifyLandmarks landmarks = Some g \<Longrightarrow> isPalmOpen g \<Longrightarrow> \<not> isFist g \<and> \<not> isPinching g"
  by (auto simp add: classifyLandmarks_def Let_def split: if_splits)

lemma candidate_palm_excludes:
  "candidateState d = Some g \<Longrightarrow> isPalmOpen g \<Longrightarrow> \<not> isFist g \<and> \<not> isPinching g"
  by (induction d rule: candidateState.induct)
     (auto simp add: neutralState_def dest: classified_palm_excludes)

lemma emitted_palm_excludes:
  "snd (predictWebcam fr refs) = Some g \<Longrightarrow> \<not> (isPalmOpen g \<and> isFist g)"
  by (auto simp add: predictWebcam_def Let_def split: if_splits option.splits
        dest: candidate_palm_excludes)

lemma initial_palm_excludes: "\<not> (isPalmOpen initialGestureState \<and> isFist initialGestureState)"
  by (simp add: initialGestureState_def)


section \<open>The control binding\<close>

text \<open>
  Claim C4. On each gesture state received (the classifier never emits one with palm
  and fist together, see \<open>emitted_palm_excludes\<close>, and the initial one has neither), the
  effect does what the three rules say: if the palm is open and \<open>autoRotate\<close> is false,
  \<open>autoRotate\<close> becomes true; else if the fist is closed and \<open>autoRotate\<close> is true, it
  becomes false; and if pinching, \<open>newScale = clamp(pvScale + 0.02, 0, 1)\<close> is written to
  \<open>pvScale\<close> only when it differs from \<open>pvScale\<close> by more than 0.01.
\<close>

theorem binding_rules:
  assumes "\<not> (isPalmOpen g \<and> isFist g)"
  shows "applyGesture g c = specApply g c"
  using assms
  by (simp add: applyGesture_def gestureEffect_def specApply_def clamp_min_max Let_def)

text \<open>
  The theorem at an open palm with a pinch while the rotation is off, and at a fist while
  it is on.
\<close>

theorem binding_rules_witness:
  "\<not> (isPalmOpen (gestureWith True False True) \<and> isFist (gestureWith True False True)) \<and>
   applyGesture (gestureWith True False True) (initialControls\<lparr> autoRotate := False \<rparr>)
     = initialControls\<lparr> autoRotate := True, pvScale := 3 / 25 \<rparr> \<and>
   applyGesture (gestureWith False True False) initialControls
     = initialControls\<lparr> autoRotate := False \<rparr>"
  using binding_rules [of "gestureWith True False True" "initialControls\<lparr> autoRotate := False \<rparr>"]
    binding_rules [of "gestureWith False True False" initialControls]
  by (simp add: gestureWith_def specApply_def clamp_def initialControls_def)

text \<open>
  The hypothesis is needed: on a state with palm and fist together, which the classifier
  cannot produce, the effect looks at the palm alone and leaves a running rotation on,
  where the rules as worded would stop it.
\<close>

lemma binding_palm_and_fist:
  "applyGesture (gestureWith True True False) initialControls = initialControls \<and>
   specApply (gestureWith True True False) initialControls
     = initialControls\<lparr> autoRotate := False \<rparr>"
  by (simp add: applyGesture_def gestureEffect_def specApply_def gestureWith_def
        initialControls_def clamp_def)

text \<open>
  Claim C10. For every gesture state and all controls, the effect changes no control
  other than \<open>autoRotate\<close> and \<open>pvScale\<close>; it writes \<open>autoRotate\<close> exactly when the palm is
  open and \<open>autoRotate\<close> was false, or the palm is not open, the fist is closed and
  \<open>autoRotate\<close> was true; it writes \<open>pvScale\<close> exactly when pinching holds and the new
  scale differs from the old by more than 0.01; a field that is not written keeps its
  value; and when all three flags are false nothing is written and the controls are
  unchanged.
\<close>

theorem binding_frame:
  "viewMode (applyGesture g c) = viewMode c \<and>
   activeLayer (applyGesture g c) = activeLayer c \<and>
   demStrength (applyGesture g c) = demStrength c \<and>
   particlesEnabled (applyGesture g c) = particlesEnabled c \<and>
   highlightColor (applyGesture g c) = highlightColor c \<and>
   pvColor (applyGesture g c) = pvColor c \<and>
   applyGesture g c
     = c\<lparr> autoRotate := autoRotate (applyGesture g c), pvScale := pvScale (applyGesture g c) \<rparr> \<and>
   (writesAutoRotate (gestureEffect g c) \<longleftrightarrow>
      (isPalmOpen g \<and> \<not> autoRotate c) \<or> (\<not> isPalmOpen g \<and> isFist g \<and> autoRotate c)) \<and>
   (\<not> writesAutoRotate (gestureEffect g c) \<longrightarrow> autoRotate (applyGesture g c) = autoRotate c) \<and>
   (writesPvScale (gestureEffect g c) \<longleftrightarrow>
      isPinching g \<and> \<bar>min 1 (max 0 (pvScale c + 0.02)) - pvScale c\<bar> > 0.01) \<and>
   (\<not> writesPvScale (gestureEffect g c) \<longrightarrow> pvScale (applyGesture g c) = pvScale c) \<and>
   (\<not> isPalmOpen g \<and> \<not> isFist g \<and> \<not> isPinching g \<longrightarrow>
      gestureEffect g c = [] \<and> applyGesture g c = c)"
  by (simp add: applyGesture_def gestureEffect_def writesAutoRotate_def writesPvScale_def Let_def)

text \<open>
  The theorem at the state with no flag, which writes nothing, and at a pinch, which
  writes \<open>pvScale\<close> and not \<open>autoRotate\<close>.
\<close>

theorem binding_frame_witness:
  "gestureEffect (gestureWith False False False) initialControls = [] \<and>
   applyGesture (gestureWith False False False) initialControls = initialControls \<and>
   writesPvScale (gestureEffect (gestureWith False False True) initialControls) \<and>
   \<not> writesAutoRotate (gestureEffect (gestureWith False False True) initialControls) \<and>
   autoRotate (applyGesture (gestureWith False False True) initialControls)
     = autoRotate initialControls"
  using binding_frame [of "gestureWith False False False" initialControls]
    binding_frame [of "gestureWith False False True" initialControls]
  by (simp add: gestureWith_def initialControls_def)


section \<open>Repeated pinching\<close>

text \<open>One pinching event, on a scale between 0 and 1.\<close>

lemma pinch_step:
  assumes "isPinching g" "0 \<le> pvScale c" "pvScale c \<le> 1"
  shows "pvScale (applyGesture g c)
           = (if pvScale c < 0.99 then min 1 (pvScale c + 0.02) else pvScale c)"
    and "writesPvScale (gestureEffect g c) \<longleftrightarrow> pvScale c < 0.99"
  using assms
  by (auto simp add: applyGesture_def gestureEffect_def writesPvScale_def Let_def min_def max_def)

lemma pinch_step_bounds:
  assumes "isPinching g" "0 \<le> pvScale c" "pvScale c \<le> 1"
  shows "0 \<le> pvScale (applyGesture g c) \<and> pvScale (applyGesture g c) \<le> 1 \<and>
         pvScale c \<le> pvScale (applyGesture g c) \<and>
         min 0.99 (pvScale c + 0.02) \<le> pvScale (applyGesture g c)"
  using assms by (simp add: pinch_step(1) min_def)

lemma applyGestures_snoc: "applyGestures (gs @ [g]) c = applyGesture g (applyGestures gs c)"
  by (simp add: applyGestures_def)

text \<open>
  A run of pinching events: the scale stays between 0 and 1, never falls, and has either
  reached 0.99 or grown by 0.02 for every event.
\<close>

lemma pinch_run_bounds:
  assumes "list_all isPinching gs" "0 \<le> pvScale c" "pvScale c \<le> 1"
  shows "0 \<le> pvScale (applyGestures gs c) \<and> pvScale (applyGestures gs c) \<le> 1 \<and>
         pvScale c \<le> pvScale (applyGestures gs c) \<and>
         (0.99 \<le> pvScale (applyGestures gs c) \<or>
          pvScale c + 0.02 * real (length gs) \<le> pvScale (applyGestures gs c))"
  using assms
proof (induction gs rule: rev_induct)
  case Nil
  then show ?case by (simp add: applyGestures_def)
next
  case (snoc g gs)
  define p where "p = pvScale (applyGestures gs c)"
  define p' where "p' = pvScale (applyGesture g (applyGestures gs c))"
  define n where "n = real (length gs)"
  from snoc have ih: "0 \<le> p" "p \<le> 1" "pvScale c \<le> p" "0.99 \<le> p \<or> pvScale c + 0.02 * n \<le> p"
    by (simp_all add: p_def n_def)
  from snoc.prems have g: "isPinching g" by simp
  from pinch_step_bounds [OF g, of "applyGestures gs c"] ih(1,2)
  have st: "0 \<le> p'" "p' \<le> 1" "p \<le> p'" "min 0.99 (p + 0.02) \<le> p'"
    by (simp_all add: p_def p'_def)
  have len: "real (length (gs @ [g])) = n + 1"
    by (simp add: n_def)
  from st(4) have "0.99 \<le> p' \<or> p + 0.02 \<le> p'"
    by (simp add: min_def split: if_splits)
  with ih(4) st(3) have "0.99 \<le> p' \<or> pvScale c + 0.02 * (n + 1) \<le> p'"
    by argo
  with st ih(3) show ?case
    unfolding applyGestures_snoc len p'_def [symmetric] by simp
qed

text \<open>From 0.995 no pinching event is accepted, however many there are.\<close>

lemma stuck_below_one:
  "applyGestures (replicate n (gestureWith False False True))
     (initialControls\<lparr> pvScale := 199 / 200 \<rparr>)
     = initialControls\<lparr> pvScale := 199 / 200 \<rparr>"
proof (induction n)
  case 0
  show ?case by (simp add: applyGestures_def)
next
  case (Suc n)
  have "applyGesture (gestureWith False False True) (initialControls\<lparr> pvScale := 199 / 200 \<rparr>)
      = initialControls\<lparr> pvScale := 199 / 200 \<rparr>"
    by (simp add: applyGesture_def gestureEffect_def gestureWith_def)
  with Suc show ?case
    by (simp add: applyGestures_def)
qed

text \<open>
  Claim C6 says that from any scale in [0,1] pinching events add 0.02 each until the
  scale saturates at exactly 1.0. From 0.995 the effect makes no call of \<open>setControls\<close>,
  and after a hundred pinching events the scale is still 0.995.
\<close>

theorem pinch_no_saturation:
  "gestureEffect (gestureWith False False True) (initialControls\<lparr> pvScale := 199 / 200 \<rparr>) = [] \<and>
   pvScale (applyGestures (replicate 100 (gestureWith False False True))
              (initialControls\<lparr> pvScale := 199 / 200 \<rparr>)) = 199 / 200"
  unfolding stuck_below_one by (simp add: gestureEffect_def gestureWith_def)

text \<open>
  Claim C6, amended. Starting from any \<open>pvScale\<close> in [0,1], a sequence of pinching
  events keeps \<open>pvScale\<close> in [0,1] and non-decreasing. The next pinching event is accepted
  (it writes \<open>pvScale\<close>) exactly when \<open>pvScale < 0.99\<close>: it adds 0.02 when
  \<open>pvScale \<le> 0.98\<close> and sets exactly 1.0, with no overshoot, when
  \<open>0.98 < pvScale < 0.99\<close>. From \<open>pvScale \<ge> 0.99\<close> on (that is, once
  \<open>newScale - pvScale \<le> 0.01\<close>) the write is suppressed and \<open>pvScale\<close> stays where it
  is, which is the case after 50 events at the latest.
\<close>

theorem pinch_events:
  assumes "list_all isPinching gs" and "isPinching g"
    and "0 \<le> pvScale c" and "pvScale c \<le> 1"
  shows "0 \<le> pvScale (applyGestures gs c) \<and> pvScale (applyGestures gs c) \<le> 1 \<and>
         pvScale c \<le> pvScale (applyGestures gs c) \<and>
         (writesPvScale (gestureEffect g (applyGestures gs c))
            \<longleftrightarrow> pvScale (applyGestures gs c) < 0.99) \<and>
         (pvScale (applyGestures gs c) \<le> 0.98 \<longrightarrow>
            pvScale (applyGestures (gs @ [g]) c) = pvScale (applyGestures gs c) + 0.02) \<and>
         (0.98 < pvScale (applyGestures gs c) \<and> pvScale (applyGestures gs c) < 0.99 \<longrightarrow>
            pvScale (applyGestures (gs @ [g]) c) = 1) \<and>
         (0.99 \<le> pvScale (applyGestures gs c) \<longrightarrow>
            pvScale (applyGestures (gs @ [g]) c) = pvScale (applyGestures gs c)) \<and>
         (50 \<le> length gs \<longrightarrow> 0.99 \<le> pvScale (applyGestures gs c))"
proof -
  let ?c = "applyGestures gs c"
  from pinch_run_bounds [OF assms(1,3,4)]
  have b: "0 \<le> pvScale ?c" "pvScale ?c \<le> 1" "pvScale c \<le> pvScale ?c"
    "0.99 \<le> pvScale ?c \<or> pvScale c + 0.02 * real (length gs) \<le> pvScale ?c"
    by simp_all
  have sat: "0.99 \<le> pvScale ?c" if "50 \<le> length gs"
  proof -
    from that have "1 \<le> 0.02 * real (length gs)" by simp
    with assms(3) have "0.99 \<le> pvScale c + 0.02 * real (length gs)" by simp
    with b(4) show ?thesis by auto
  qed
  from pinch_step [OF assms(2) b(1) b(2)] b sat show ?thesis
    unfolding applyGestures_snoc by (simp add: min_def)
qed

text \<open>
  The theorem at the initial scale 0.1 after one pinch (the second adds 0.02 again), at
  0.985 (the pinch sets 1.0) and at 0.995 (the pinch is not accepted).
\<close>

theorem pinch_events_witness:
  "list_all isPinching [gestureWith False False True] \<and>
   pvScale (applyGestures [gestureWith False False True, gestureWith False False True]
              initialControls) = 7 / 50 \<and>
   pvScale (applyGestures [gestureWith False False True]
              (initialControls\<lparr> pvScale := 197 / 200 \<rparr>)) = 1 \<and>
   pvScale (applyGestures [gestureWith False False True]
              (initialControls\<lparr> pvScale := 199 / 200 \<rparr>)) = 199 / 200"
  using pinch_events [of "[gestureWith False False True]" "gestureWith False False True"
      initialControls]
    pinch_events [of "[]" "gestureWith False False True"
      "initialControls\<lparr> pvScale := 197 / 200 \<rparr>"]
    pinch_events [of "[]" "gestureWith False False True"
      "initialControls\<lparr> pvScale := 199 / 200 \<rparr>"]
  by (simp add: gestureWith_def initialControls_def applyGestures_def applyGesture_def
        gestureEffect_def)


section \<open>Orientation on the sphere\<close>

text \<open>The projection lies on the sphere of radius \<open>r\<close>.\<close>

lemma length_project: "length_v3 (project latitude longitude r) = \<bar>r\<bar>"
proof -
  define s where "s = sin ((90 - latitude) * (pi / 180))"
  define c where "c = cos ((90 - latitude) * (pi / 180))"
  define s' where "s' = sin ((longitude + 180) * (pi / 180))"
  define c' where "c' = cos ((longitude + 180) * (pi / 180))"
  have 1: "s * s + c * c = 1" and 2: "s' * s' + c' * c' = 1"
    unfolding s_def c_def s'_def c'_def
    by (simp_all add: power2_eq_square [symmetric])
  have "r * s * c' * (r * s * c') + r * c * (r * c) + r * s * s' * (r * s * s')
      = r * r * (s * s * (s' * s' + c' * c') + c * c)"
    by (simp add: algebra_simps)
  also have "\<dots> = r * r"
    using 1 2 by simp
  finally show ?thesis
    by (simp add: length_v3_def project_def Let_def s_def c_def s'_def c'_def)
qed

lemma normalize_project:
  assumes "0 < r"
  shows "normalize_v3 (project latitude longitude r) = project latitude longitude 1"
  using assms
  by (simp add: normalize_v3_def length_project Let_def) (simp add: project_def Let_def)

lemma project_unit:
  "v_x (project la lo 1) * v_x (project la lo 1) + v_y (project la lo 1) * v_y (project la lo 1)
     + v_z (project la lo 1) * v_z (project la lo 1) = 1"
  using length_project [of la lo 1] by (simp add: length_v3_def)

text \<open>The rotation from the up-axis to a unit vector maps the up-axis onto it.\<close>

lemma rotate_up_onto:
  assumes unit: "a * a + b * b + c * c = 1"
  shows "applyQuaternion (setFromUnitVectors up \<lparr> v_x = a, v_y = b, v_z = c \<rparr>) up
           = \<lparr> v_x = a, v_y = b, v_z = c \<rparr>"
proof (cases "b + 1 \<le> 0")
  case True
  have le: "b * b \<le> 1"
    using unit zero_le_square [of a] zero_le_square [of c] by linarith
  from True have "b + 1 \<le> 0" "b - 1 \<le> 0" by simp_all
  then have "0 \<le> (b + 1) * (b - 1)" by (rule mult_nonpos_nonpos)
  then have "1 \<le> b * b" by (simp add: algebra_simps)
  with le have "(b + 1) * (b - 1) = 0" by (simp add: algebra_simps)
  with True have b: "b = -1" by auto
  with unit have "a * a + c * c = 0" by simp
  then have ac: "a = 0" "c = 0"
    by (simp_all add: sum_squares_eq_zero_iff)
  show ?thesis
    by (simp add: setFromUnitVectors_def up_def normalize_q_def applyQuaternion_def Let_def b ac)
next
  case False
  then have r: "0 < b + 1" by simp
  define l where "l = sqrt (c * c + a * a + (b + 1) * (b + 1))"
  have "c * c + a * a + (b + 1) * (b + 1) = 2 * (b + 1)"
    using unit by (simp add: algebra_simps)
  then have ll: "l * l = 2 * (b + 1)"
    using r by (simp add: l_def)
  with r have l0: "l \<noteq> 0" by auto
  have q: "setFromUnitVectors up \<lparr> v_x = a, v_y = b, v_z = c \<rparr>
      = \<lparr> q_x = c / l, q_y = 0, q_z = - a / l, q_w = (b + 1) / l \<rparr>"
    using False l0 by (simp add: setFromUnitVectors_def up_def normalize_q_def Let_def l_def)
  have ac: "a * a + c * c = (1 - b) * (1 + b)"
    using unit by (simp add: algebra_simps)
  have x: "(b + 1) / l * (2 * (a / l)) = a"
  proof -
    have "(b + 1) / l * (2 * (a / l)) = (2 * (b + 1)) * a / (l * l)" by simp
    also have "\<dots> = a" using r by (simp add: ll)
    finally show ?thesis .
  qed
  have z: "(b + 1) / l * (2 * (c / l)) = c"
  proof -
    have "(b + 1) / l * (2 * (c / l)) = (2 * (b + 1)) * c / (l * l)" by simp
    also have "\<dots> = c" using r by (simp add: ll)
    finally show ?thesis .
  qed
  have y: "1 - a / l * (2 * (a / l)) - c / l * (2 * (c / l)) = b"
  proof -
    have "a / l * (2 * (a / l)) + c / l * (2 * (c / l)) = 2 * (a * a + c * c) / (l * l)"
      by (simp add: add_divide_distrib distrib_left mult.left_commute)
    also have "\<dots> = (1 - b) * (2 * (b + 1)) / (2 * (b + 1))"
      unfolding ll ac by (simp add: algebra_simps)
    also have "\<dots> = 1 - b"
      using r by simp
    finally show ?thesis by simp
  qed
  show ?thesis
    unfolding q using x y z by (simp add: applyQuaternion_def up_def Let_def)
qed

text \<open>
  Claim C7. For every latitude and longitude, on a sphere of radius \<open>R > 0\<close>, the
  rotation computed for the projected position maps the up-axis (0,1,0) onto the
  position normalized, which is a unit vector: the outward normal at that point.
\<close>

theorem orientation_maps_up:
  assumes "0 < r"
  shows "applyQuaternion (surfaceOrientation (project latitude longitude r)) up
           = normalize_v3 (project latitude longitude r)
         \<and> length_v3 (normalize_v3 (project latitude longitude r)) = 1"
proof -
  obtain a b c where n: "project latitude longitude 1 = \<lparr> v_x = a, v_y = b, v_z = c \<rparr>"
    by (cases "project latitude longitude 1") auto
  from project_unit [of latitude longitude] have "a * a + b * b + c * c = 1"
    by (simp add: n)
  from rotate_up_onto [OF this] show ?thesis
    by (simp add: surfaceOrientation_def normalize_project [OF assms] n [symmetric] length_project)
qed

text \<open>
  The theorem for a station on the equator at longitude 0 (the radius is that of the
  stations, 50.05) and for one at the south pole, where the normal is opposite to the
  up-axis.
\<close>

theorem orientation_maps_up_witness:
  "0 < EARTH_RADIUS + 0.05 \<and>
   applyQuaternion (surfaceOrientation (project 0 0 (EARTH_RADIUS + 0.05))) up
     = \<lparr> v_x = 1, v_y = 0, v_z = 0 \<rparr> \<and>
   applyQuaternion (surfaceOrientation (project (- 90) 0 (EARTH_RADIUS + 0.05))) up
     = \<lparr> v_x = 0, v_y = - 1, v_z = 0 \<rparr>"
proof -
  have pos: "0 < EARTH_RADIUS + 0.05"
    by (simp add: EARTH_RADIUS_def)
  have n1: "normalize_v3 (project 0 0 (EARTH_RADIUS + 0.05)) = \<lparr> v_x = 1, v_y = 0, v_z = 0 \<rparr>"
    unfolding normalize_project [OF pos] by (simp add: project_def)
  have n2: "normalize_v3 (project (- 90) 0 (EARTH_RADIUS + 0.05)) = \<lparr> v_x = 0, v_y = - 1, v_z = 0 \<rparr>"
    unfolding normalize_project [OF pos] by (simp add: project_def)
  from orientation_maps_up [OF pos, of 0 0] orientation_maps_up [OF pos, of "- 90" 0] pos
  show ?thesis
    unfolding n1 n2 by simp
qed


section \<open>The scale of the station batch\<close>

text \<open>
  Claim C8. On every frame with the mesh mounted, each component of the batch scale goes
  from \<open>current\<close> to \<open>current + (1 + pvScale \<cdot> 2 - current) \<cdot> 0.1\<close>: it is smoothed towards
  the target \<open>1 + pvScale \<cdot> 2\<close> with the fixed factor 0.1 and not set to it; the new scale
  is the target only where the scale was the target already.
\<close>

theorem useFrame_smoothing:
  "useFrame scaleMultiplier (Some current) =
     Some \<lparr> v_x = v_x current + (1 + scaleMultiplier * 2 - v_x current) * 0.1,
            v_y = v_y current + (1 + scaleMultiplier * 2 - v_y current) * 0.1,
            v_z = v_z current + (1 + scaleMultiplier * 2 - v_z current) * 0.1 \<rparr>
   \<and> (useFrame scaleMultiplier (Some current) =
        Some \<lparr> v_x = 1 + scaleMultiplier * 2, v_y = 1 + scaleMultiplier * 2,
               v_z = 1 + scaleMultiplier * 2 \<rparr>
      \<longleftrightarrow> current = \<lparr> v_x = 1 + scaleMultiplier * 2, v_y = 1 + scaleMultiplier * 2,
               v_z = 1 + scaleMultiplier * 2 \<rparr>)"
proof -
  have step: "x + (t - x) * 0.1 = t \<longleftrightarrow> x = t" for x t :: real
    by argo
  show ?thesis
    by (cases current) (simp add: useFrame_def lerp_def Let_def step [simplified])
qed

end
